theory Spec2Isabelle
  imports Complex_Main "HOL-Library.Sublist"
begin

section \<open>Normalization layers of llmfoundry/models/layers/norm.py\<close>

text \<open>
  The module is a precision policy around the tensor runtime (torch) and the
  accelerator bridge (torch_xla's pjrt): which primitive is called, on which
  tensors, in which autocast context, and which casts surround the call.
  The runtime is not part of the repository, so it enters the model as a
  parameter: a record \<open>'e torch\<close> of the primitives and queries the module calls,
  over an ambient execution context of type \<open>'e\<close> (autocast state, pjrt mode).
  Every function of norm.py is translated over an arbitrary such record.
  A reference runtime on exact real numbers (\<open>ref_torch\<close>, further down) runs the
  translated functions on concrete tensors.
\<close>

subsection \<open>Tensors, errors, results\<close>

text \<open>
  The floating-point dtypes; \<open>Float32\<close> is \<^verbatim>\<open>torch.float32\<close>, the target of
  \<^verbatim>\<open>x.float()\<close>. Tensors of integers are outside the model.
\<close>

datatype dtype = Float16 | BFloat16 | Float32 | Float64


text \<open>
  A tensor as the module observes it: \<open>tensor.dtype\<close>, \<open>tensor.device.type\<close>, its
  shape and its elements in row-major order. Elements are real numbers; the
  rounding a dtype implies is the business of the runtime's primitives.
\<close>

record tensor =
  dtype :: dtype
  device_type :: string
  shape :: "nat list"
  data :: "real list"

text \<open>
  \<open>NotImplementedError\<close> is the one exception norm.py raises itself;
  \<open>HostError\<close> stands for any exception raised inside a runtime primitive,
  which the module lets propagate.
\<close>

datatype error = NotImplementedError | HostError

type_synonym 'a result = "error + 'a"

definition bind_res :: "'a result \<Rightarrow> ('a \<Rightarrow> 'b result) \<Rightarrow> 'b result" where
  "bind_res r f = (case r of Inl e \<Rightarrow> Inl e | Inr v \<Rightarrow> f v)"

definition map_res :: "('a \<Rightarrow> 'b) \<Rightarrow> 'a result \<Rightarrow> 'b result" where
  "map_res f r = (case r of Inl e \<Rightarrow> Inl e | Inr v \<Rightarrow> Inr (f v))"

subsection \<open>The host runtime, as the module calls it\<close>

text \<open>
  One field per call that norm.py makes into torch and pjrt:
  \<^item> \<open>is_autocast_enabled\<close>, \<open>get_autocast_gpu_dtype\<close>, \<open>get_autocast_cpu_dtype\<close>:
    the queries \<^verbatim>\<open>torch.is_autocast_enabled()\<close> and so on, read from the context;
  \<^item> \<open>using_pjrt\<close>: \<^verbatim>\<open>pjrt.using_pjrt()\<close>;
  \<^item> \<open>autocast\<close>: entering \<^verbatim>\<open>with torch.autocast(enabled=b, device_type=d)\<close>, which
    yields the context the body of the block runs in (or raises);
  \<^item> \<open>tensor_to\<close>: \<^verbatim>\<open>t.to(dtype=d)\<close>;
  \<^item> \<open>tensor_pow\<close>: \<^verbatim>\<open>t.pow(k)\<close>; \<open>tensor_mean_last\<close>: \<^verbatim>\<open>t.mean(-1, keepdim=True)\<close>;
    \<open>tensor_add_scalar\<close>: \<^verbatim>\<open>t + eps\<close>; \<open>tensor_rsqrt\<close>: \<^verbatim>\<open>torch.rsqrt(t)\<close>;
    \<open>tensor_mul\<close>: \<^verbatim>\<open>a * b\<close>;
  \<^item> \<open>layer_norm\<close>: \<^verbatim>\<open>torch.nn.functional.layer_norm(x, normalized_shape, weight, bias, eps)\<close>.
  The arithmetic primitives take the context, because autocast changes the
  precision they run at, and may fail.
\<close>

record 'e torch =
  is_autocast_enabled :: "'e \<Rightarrow> bool"
  get_autocast_gpu_dtype :: "'e \<Rightarrow> dtype"
  get_autocast_cpu_dtype :: "'e \<Rightarrow> dtype"
  using_pjrt :: "'e \<Rightarrow> bool"
  autocast :: "bool \<Rightarrow> string \<Rightarrow> 'e \<Rightarrow> 'e result"
  tensor_to :: "tensor \<Rightarrow> dtype \<Rightarrow> tensor"
  tensor_pow :: "'e \<Rightarrow> tensor \<Rightarrow> nat \<Rightarrow> tensor result"
  tensor_mean_last :: "'e \<Rightarrow> tensor \<Rightarrow> tensor result"
  tensor_add_scalar :: "'e \<Rightarrow> tensor \<Rightarrow> real \<Rightarrow> tensor result"
  tensor_rsqrt :: "'e \<Rightarrow> tensor \<Rightarrow> tensor result"
  tensor_mul :: "'e \<Rightarrow> tensor \<Rightarrow> tensor \<Rightarrow> tensor result"
  layer_norm ::
    "'e \<Rightarrow> tensor \<Rightarrow> nat list \<Rightarrow> tensor option \<Rightarrow> tensor option \<Rightarrow> real \<Rightarrow> tensor result"

text \<open>\<^verbatim>\<open>x.float()\<close> is \<^verbatim>\<open>x.to(torch.float32)\<close>.\<close>

definition tensor_float :: "'e torch \<Rightarrow> tensor \<Rightarrow> tensor" where
  "tensor_float rt x = tensor_to rt x Float32"

subsection \<open>The precision-casting helper (norm.py, lines 10 to 19)\<close>

definition cast_if_autocast_enabled :: "'e torch \<Rightarrow> 'e \<Rightarrow> tensor \<Rightarrow> tensor result" where
  "cast_if_autocast_enabled rt env t =
     (if is_autocast_enabled rt env then
        (if device_type t = ''cuda'' then
           Inr (tensor_to rt t (get_autocast_gpu_dtype rt env))
         else if device_type t = ''cpu'' then
           Inr (tensor_to rt t (get_autocast_cpu_dtype rt env))
         else Inl NotImplementedError)
      else Inr t)"

text \<open>
  \<^verbatim>\<open>_cast_if_autocast_enabled(p) if p is not None else p\<close>, the expression
  the low-precision layers apply to their optional parameters.
\<close>

definition cast_param :: "'e torch \<Rightarrow> 'e \<Rightarrow> tensor option \<Rightarrow> tensor option result" where
  "cast_param rt env p =
     (case p of
        Some w \<Rightarrow> map_res Some (cast_if_autocast_enabled rt env w)
      | None \<Rightarrow> Inr None)"

subsection \<open>Layer normalization modules (lines 22 to 56)\<close>

text \<open>
  The state of a \<^verbatim>\<open>torch.nn.LayerNorm\<close> object that \<^verbatim>\<open>forward\<close> reads.
  \<^verbatim>\<open>LPLayerNorm\<close> inherits it unchanged.
\<close>

record layer_norm_module =
  ln_normalized_shape :: "nat list"
  ln_eps :: real
  ln_weight :: "tensor option"
  ln_bias :: "tensor option"

text \<open>
  \<^verbatim>\<open>torch.nn.LayerNorm.forward\<close> belongs to the runtime: it passes the input and
  the stored parameters to the primitive.
\<close>

definition LayerNorm_forward ::
  "'e torch \<Rightarrow> 'e \<Rightarrow> layer_norm_module \<Rightarrow> tensor \<Rightarrow> tensor result" where
  "LayerNorm_forward rt env m x =
     layer_norm rt env x (ln_normalized_shape m) (ln_weight m) (ln_bias m) (ln_eps m)"

definition LPLayerNorm_forward ::
  "'e torch \<Rightarrow> 'e \<Rightarrow> layer_norm_module \<Rightarrow> tensor \<Rightarrow> tensor result" where
  "LPLayerNorm_forward rt env m x =
     (if using_pjrt rt env then
        layer_norm rt env x (ln_normalized_shape m) (ln_weight m) (ln_bias m) (ln_eps m)
      else
        (let module_device = device_type x in
         bind_res (cast_if_autocast_enabled rt env x) (\<lambda>downcast_x.
         bind_res (cast_param rt env (ln_weight m)) (\<lambda>downcast_weight.
         bind_res (cast_param rt env (ln_bias m)) (\<lambda>downcast_bias.
         bind_res (autocast rt False module_device env) (\<lambda>env'.
           layer_norm rt env' downcast_x (ln_normalized_shape m)
             downcast_weight downcast_bias (ln_eps m)))))))"

subsection \<open>RMS normalization (lines 59 to 118)\<close>

definition rms_norm ::
  "'e torch \<Rightarrow> 'e \<Rightarrow> tensor \<Rightarrow> tensor option \<Rightarrow> real \<Rightarrow> tensor result" where
  "rms_norm rt env x weight eps =
     bind_res
       (bind_res
          (bind_res
             (bind_res
                (bind_res (tensor_pow rt env x 2) (tensor_mean_last rt env))
                (\<lambda>ms. tensor_add_scalar rt env ms eps))
             (tensor_rsqrt rt env))
          (tensor_mul rt env x))
       (\<lambda>output.
          (case weight of
             Some w \<Rightarrow> tensor_mul rt env output w
           | None \<Rightarrow> Inr output))"


text \<open>
  The state of an \<^verbatim>\<open>RMSNorm\<close> object that \<^verbatim>\<open>forward\<close> reads: \<^verbatim>\<open>self.eps\<close>
  and the parameter \<^verbatim>\<open>self.weight\<close>, which is \<^verbatim>\<open>None\<close> when the module was built
  with \<^verbatim>\<open>weight=False\<close>. \<^verbatim>\<open>LPRMSNorm\<close> inherits it unchanged.
\<close>

record rms_norm_module =
  rms_eps :: real
  rms_weight :: "tensor option"

definition RMSNorm_forward ::
  "'e torch \<Rightarrow> 'e \<Rightarrow> rms_norm_module \<Rightarrow> tensor \<Rightarrow> tensor result" where
  "RMSNorm_forward rt env m x =
     (if using_pjrt rt env then
        map_res (\<lambda>y. tensor_to rt y (dtype x))
          (rms_norm rt env x (rms_weight m) (rms_eps m))
      else
        map_res (\<lambda>y. tensor_to rt y (dtype x))
          (rms_norm rt env (tensor_float rt x) (rms_weight m) (rms_eps m)))"

definition LPRMSNorm_forward ::
  "'e torch \<Rightarrow> 'e \<Rightarrow> rms_norm_module \<Rightarrow> tensor \<Rightarrow> tensor result" where
  "LPRMSNorm_forward rt env m x =
     (if using_pjrt rt env then
        map_res (\<lambda>y. tensor_to rt y (dtype x))
          (rms_norm rt env x (rms_weight m) (rms_eps m))
      else
        bind_res (cast_if_autocast_enabled rt env x) (\<lambda>downcast_x.
        bind_res (cast_param rt env (rms_weight m)) (\<lambda>downcast_weight.
        bind_res (autocast rt False (device_type x) env) (\<lambda>env'.
          map_res (\<lambda>y. tensor_to rt y (dtype x))
            (rms_norm rt env' downcast_x downcast_weight (rms_eps m))))))"

subsection \<open>The registry (lines 121 to 126)\<close>

datatype norm_class = LayerNorm | LPLayerNorm | RMSNorm | LPRMSNorm

definition NORM_CLASS_REGISTRY :: "string \<Rightarrow> norm_class option" where
  "NORM_CLASS_REGISTRY =
     map_of
       [(''layernorm'', LayerNorm),
        (''low_precision_layernorm'', LPLayerNorm),
        (''rmsnorm'', RMSNorm),
        (''low_precision_rmsnorm'', LPRMSNorm)]"

text \<open>
  An instance of one of the four registered classes, and the method its
  \<^verbatim>\<open>forward\<close> resolves to.
\<close>

datatype norm_module =
  LayerNorm_obj layer_norm_module
| LPLayerNorm_obj layer_norm_module
| RMSNorm_obj rms_norm_module
| LPRMSNorm_obj rms_norm_module

fun class_of :: "norm_module \<Rightarrow> norm_class" where
  "class_of (LayerNorm_obj m) = LayerNorm"
| "class_of (LPLayerNorm_obj m) = LPLayerNorm"
| "class_of (RMSNorm_obj m) = RMSNorm"
| "class_of (LPRMSNorm_obj m) = LPRMSNorm"

fun forward :: "'e torch \<Rightarrow> 'e \<Rightarrow> norm_module \<Rightarrow> tensor \<Rightarrow> tensor result" where
  "forward rt env (LayerNorm_obj m) x = LayerNorm_forward rt env m x"
| "forward rt env (LPLayerNorm_obj m) x = LPLayerNorm_forward rt env m x"
| "forward rt env (RMSNorm_obj m) x = RMSNorm_forward rt env m x"
| "forward rt env (LPRMSNorm_obj m) x = LPRMSNorm_forward rt env m x"

subsection \<open>The specification's formula for the RMS core (section 4.3, steps 1 to 3)\<close>

text \<open>
  Written from the specification's words, to be compared with \<open>rms_norm\<close>:
  square the elements, take the mean of the squares along the last axis keeping
  that axis, add eps, take the reciprocal square root, multiply \<open>x\<close> by it.
\<close>

definition rms_formula :: "'e torch \<Rightarrow> 'e \<Rightarrow> tensor \<Rightarrow> real \<Rightarrow> tensor result" where
  "rms_formula rt env x eps =
     bind_res (tensor_pow rt env x 2) (\<lambda>squares.
     bind_res (tensor_mean_last rt env squares) (\<lambda>mean_square.
     bind_res (tensor_add_scalar rt env mean_square eps) (\<lambda>shifted.
     bind_res (tensor_rsqrt rt env shifted) (\<lambda>r.
       tensor_mul rt env x r))))"

subsection \<open>What the module relies on from the runtime\<close>

text \<open>A cast yields a tensor of the requested dtype.\<close>

definition casts_to_requested :: "'e torch \<Rightarrow> bool" where
  "casts_to_requested rt \<longleftrightarrow> (\<forall>t d. dtype (tensor_to rt t d) = d)"




text \<open>
  Broadcasting of two shapes, as the runtime's elementwise binary operations
  do it: the shapes are aligned at their last axis; two aligned sizes must be
  equal or one of them 1; a missing axis counts as absent.
\<close>

fun broadcast_rev :: "nat list \<Rightarrow> nat list \<Rightarrow> nat list option" where
  "broadcast_rev [] ys = Some ys"
| "broadcast_rev (x # xs) [] = Some (x # xs)"
| "broadcast_rev (x # xs) (y # ys) =
     (if x = y \<or> y = 1 then map_option ((#) x) (broadcast_rev xs ys)
      else if x = 1 then map_option ((#) y) (broadcast_rev xs ys)
      else None)"

definition broadcast_shapes :: "nat list \<Rightarrow> nat list \<Rightarrow> nat list option" where
  "broadcast_shapes a b = map_option rev (broadcast_rev (rev a) (rev b))"

text \<open>The shape of \<^verbatim>\<open>t.mean(-1, keepdim=True)\<close> for a tensor of shape \<open>s\<close>.\<close>

definition keepdim_shape :: "nat list \<Rightarrow> nat list" where
  "keepdim_shape s = (if s = [] then [] else butlast s @ [1])"

text \<open>
  The shapes of the primitives' results: casts and the elementwise unary
  operations keep the shape, the mean over the last axis keeps that axis with
  size 1, a product has the broadcast shape, and \<open>layer_norm\<close> returns the shape of
  its input.
\<close>

definition shape_rules :: "'e torch \<Rightarrow> bool" where
  "shape_rules rt \<longleftrightarrow>
     (\<forall>t d. shape (tensor_to rt t d) = shape t) \<and>
     (\<forall>e t k u. tensor_pow rt e t k = Inr u \<longrightarrow> shape u = shape t) \<and>
     (\<forall>e t u. tensor_mean_last rt e t = Inr u \<longrightarrow> shape u = keepdim_shape (shape t)) \<and>
     (\<forall>e t c u. tensor_add_scalar rt e t c = Inr u \<longrightarrow> shape u = shape t) \<and>
     (\<forall>e t u. tensor_rsqrt rt e t = Inr u \<longrightarrow> shape u = shape t) \<and>
     (\<forall>e a b c. tensor_mul rt e a b = Inr c \<longrightarrow>
        broadcast_shapes (shape a) (shape b) = Some (shape c)) \<and>
     (\<forall>e x ns w b eps y. layer_norm rt e x ns w b eps = Inr y \<longrightarrow> shape y = shape x)"

text \<open>
  A supported input (specification, section 3): the normalized shape is the
  trailing part of the input's shape. An \<^verbatim>\<open>RMSNorm\<close> keeps the normalized shape
  only as the shape of its weight.
\<close>

fun supported_input :: "norm_module \<Rightarrow> tensor \<Rightarrow> bool" where
  "supported_input (LayerNorm_obj m) x = suffix (ln_normalized_shape m) (shape x)"
| "supported_input (LPLayerNorm_obj m) x = suffix (ln_normalized_shape m) (shape x)"
| "supported_input (RMSNorm_obj m) x =
     (case rms_weight m of None \<Rightarrow> True | Some w \<Rightarrow> suffix (shape w) (shape x))"
| "supported_input (LPRMSNorm_obj m) x =
     (case rms_weight m of None \<Rightarrow> True | Some w \<Rightarrow> suffix (shape w) (shape x))"

subsection \<open>A reference runtime on exact reals\<close>

text \<open>
  An instance of the runtime record that computes with real numbers: a cast
  relabels the dtype and keeps the values, the arithmetic is exact. Where the
  runtime would produce an infinity or a NaN (the mean of no elements, the
  reciprocal square root of a number that is not positive) the reference fails
  with \<open>HostError\<close>, since a real number cannot hold such a value.
\<close>

record ref_env =
  autocast_on :: bool
  gpu_dtype :: dtype
  cpu_dtype :: dtype
  pjrt_on :: bool

definition ref_autocast :: "bool \<Rightarrow> string \<Rightarrow> ref_env \<Rightarrow> ref_env result" where
  "ref_autocast enabled dev env =
     (if dev = ''cuda'' \<or> dev = ''cpu'' then Inr (env\<lparr>autocast_on := enabled\<rparr>)
      else Inl HostError)"

definition ref_to :: "tensor \<Rightarrow> dtype \<Rightarrow> tensor" where
  "ref_to t d = t\<lparr>dtype := d\<rparr>"

definition rows :: "nat \<Rightarrow> 'a list \<Rightarrow> 'a list list" where
  "rows n xs = map (\<lambda>i. take n (drop (i * n) xs)) [0..<length xs div n]"

definition ref_pow :: "ref_env \<Rightarrow> tensor \<Rightarrow> nat \<Rightarrow> tensor result" where
  "ref_pow env t k = Inr (t\<lparr>data := map (\<lambda>v. v ^ k) (data t)\<rparr>)"

definition ref_mean_last :: "ref_env \<Rightarrow> tensor \<Rightarrow> tensor result" where
  "ref_mean_last env t =
     (if shape t = [] then Inr t
      else if last (shape t) = 0 then Inl HostError
      else Inr (t\<lparr>shape := keepdim_shape (shape t),
                  data := map (\<lambda>r. sum_list r / real (last (shape t)))
                            (rows (last (shape t)) (data t))\<rparr>))"

definition ref_add_scalar :: "ref_env \<Rightarrow> tensor \<Rightarrow> real \<Rightarrow> tensor result" where
  "ref_add_scalar env t c = Inr (t\<lparr>data := map (\<lambda>v. v + c) (data t)\<rparr>)"

definition ref_rsqrt :: "ref_env \<Rightarrow> tensor \<Rightarrow> tensor result" where
  "ref_rsqrt env t =
     (if list_all (\<lambda>v. 0 < v) (data t)
      then Inr (t\<lparr>data := map (\<lambda>v. 1 / sqrt v) (data t)\<rparr>)
      else Inl HostError)"

definition promote_types :: "dtype \<Rightarrow> dtype \<Rightarrow> dtype" where
  "promote_types a b =
     (if a = b then a
      else if a = Float64 \<or> b = Float64 then Float64
      else Float32)"

text \<open>
  \<open>expand s t d\<close>: the elements \<open>d\<close> of a tensor of shape \<open>s\<close>, repeated to fill
  the shape \<open>t\<close> that \<open>s\<close> broadcasts to (both of the same length).
\<close>

fun expand :: "nat list \<Rightarrow> nat list \<Rightarrow> real list \<Rightarrow> real list" where
  "expand (s # ss) (t # ts) d =
     (let blocks =
        concat (map (\<lambda>i. expand ss ts (take (prod_list ss) (drop (i * prod_list ss) d))) [0..<s])
      in if s = t then blocks else concat (replicate t blocks))"
| "expand [] ts d = d"
| "expand (s # ss) [] d = d"

definition broadcast_data :: "nat list \<Rightarrow> nat list \<Rightarrow> real list \<Rightarrow> real list" where
  "broadcast_data s t d = expand (replicate (length t - length s) 1 @ s) t d"

definition ref_mul :: "ref_env \<Rightarrow> tensor \<Rightarrow> tensor \<Rightarrow> tensor result" where
  "ref_mul env a b =
     (if device_type a \<noteq> device_type b then Inl HostError
      else
        (case broadcast_shapes (shape a) (shape b) of
           None \<Rightarrow> Inl HostError
         | Some s \<Rightarrow>
             Inr \<lparr>dtype = promote_types (dtype a) (dtype b),
                  device_type = device_type a,
                  shape = s,
                  data = map2 (*) (broadcast_data (shape a) s (data a))
                                  (broadcast_data (shape b) s (data b))\<rparr>))"

text \<open>
  Layer normalization of one row of \<open>n\<close> elements: centre on the mean, divide
  by the square root of the variance plus eps, scale by \<open>w\<close> and shift by \<open>b\<close>.
  The reference \<open>layer_norm\<close> rejects an input whose trailing dimensions are not the
  normalized shape and a parameter of another shape, as the runtime does, and
  asks for a positive eps, which keeps the square root away from zero.
\<close>

definition ref_layer_norm_row :: "real \<Rightarrow> real list \<Rightarrow> real list \<Rightarrow> real list \<Rightarrow> real list" where
  "ref_layer_norm_row eps w b r =
     (let n = real (length r);
          mu = sum_list r / n;
          var = sum_list (map (\<lambda>v. (v - mu) ^ 2) r) / n
      in map (\<lambda>(v, g, h). (v - mu) / sqrt (var + eps) * g + h) (zip r (zip w b)))"

definition param_ok :: "nat list \<Rightarrow> tensor option \<Rightarrow> bool" where
  "param_ok ns p = (case p of None \<Rightarrow> True | Some w \<Rightarrow> shape w = ns)"

definition ref_layer_norm ::
  "ref_env \<Rightarrow> tensor \<Rightarrow> nat list \<Rightarrow> tensor option \<Rightarrow> tensor option \<Rightarrow> real \<Rightarrow> tensor result" where
  "ref_layer_norm env x ns w b eps =
     (if ns = [] \<or> prod_list ns = 0 \<or> eps \<le> 0 \<or> \<not> suffix ns (shape x)
         \<or> \<not> param_ok ns w \<or> \<not> param_ok ns b
      then Inl HostError
      else
        (let n = prod_list ns;
             g = (case w of None \<Rightarrow> replicate n 1 | Some t \<Rightarrow> data t);
             h = (case b of None \<Rightarrow> replicate n 0 | Some t \<Rightarrow> data t)
         in Inr (x\<lparr>data := concat (map (ref_layer_norm_row eps g h) (rows n (data x)))\<rparr>)))"

definition ref_torch :: "ref_env torch" where
  "ref_torch =
     \<lparr>is_autocast_enabled = autocast_on,
      get_autocast_gpu_dtype = gpu_dtype,
      get_autocast_cpu_dtype = cpu_dtype,
      using_pjrt = pjrt_on,
      autocast = ref_autocast,
      tensor_to = ref_to,
      tensor_pow = ref_pow,
      tensor_mean_last = ref_mean_last,
      tensor_add_scalar = ref_add_scalar,
      tensor_rsqrt = ref_rsqrt,
      tensor_mul = ref_mul,
      layer_norm = ref_layer_norm\<rparr>"

subsection \<open>The reference runtime with the range of the half format\<close>



text \<open>
  The RMS normalization of one row, as mathematics: every element divided by
  the square root of the row's mean square plus eps.
\<close>

definition rms_row :: "real \<Rightarrow> real list \<Rightarrow> real list" where
  "rms_row eps r =
     map (\<lambda>v. v * (1 / sqrt (sum_list (map (\<lambda>u. u ^ 2) r) / real (length r) + eps))) r"

subsection \<open>Example inputs\<close>

text \<open>
  Three execution contexts of the reference runtime (plain, autocast active,
  pjrt mode), tensors on three device types, and one module of each kind.
\<close>

definition env_plain :: ref_env where
  "env_plain =
     \<lparr>autocast_on = False, gpu_dtype = Float16, cpu_dtype = BFloat16, pjrt_on = False\<rparr>"

definition env_autocast :: ref_env where
  "env_autocast =
     \<lparr>autocast_on = True, gpu_dtype = Float16, cpu_dtype = BFloat16, pjrt_on = False\<rparr>"

definition env_pjrt :: ref_env where
  "env_pjrt =
     \<lparr>autocast_on = False, gpu_dtype = Float16, cpu_dtype = BFloat16, pjrt_on = True\<rparr>"

definition on_cuda :: tensor where
  "on_cuda = \<lparr>dtype = Float32, device_type = ''cuda'', shape = [2], data = [3, 4]\<rparr>"

definition on_cpu :: tensor where
  "on_cpu = \<lparr>dtype = Float32, device_type = ''cpu'', shape = [2], data = [3, 4]\<rparr>"

definition on_xla :: tensor where
  "on_xla = \<lparr>dtype = Float32, device_type = ''xla'', shape = [2], data = [3, 4]\<rparr>"

definition half_batch :: tensor where
  "half_batch =
     \<lparr>dtype = Float16, device_type = ''cpu'', shape = [2, 2], data = [3, 4, 6, 8]\<rparr>"

definition scale :: tensor where
  "scale = \<lparr>dtype = BFloat16, device_type = ''cpu'', shape = [2], data = [1, 1]\<rparr>"

definition shift :: tensor where
  "shift = \<lparr>dtype = Float32, device_type = ''cpu'', shape = [2], data = [0, 0]\<rparr>"

definition rms_plain :: rms_norm_module where
  "rms_plain = \<lparr>rms_eps = 1 / 100000, rms_weight = None\<rparr>"

definition rms_scaled :: rms_norm_module where
  "rms_scaled = \<lparr>rms_eps = 1 / 100000, rms_weight = Some scale\<rparr>"

definition ln_affine :: layer_norm_module where
  "ln_affine =
     \<lparr>ln_normalized_shape = [2], ln_eps = 1 / 100000,
      ln_weight = Some scale, ln_bias = Some shift\<rparr>"

text \<open>The tensor of shape (2, 4) filled with 2.0.\<close>

definition twos :: tensor where
  "twos =
     \<lparr>dtype = Float32, device_type = ''cpu'', shape = [2, 4],
      data = [2, 2, 2, 2, 2, 2, 2, 2]\<rparr>"

text \<open>
  Weights stored at 32 and at 64 bits, a 64-bit input, an all-32-bit input and
  layer-norm module, and a half-precision input whose squares leave the range
  of the half format.
\<close>

definition single_scale :: tensor where
  "single_scale = \<lparr>dtype = Float32, device_type = ''cpu'', shape = [2], data = [1, 1]\<rparr>"

definition double_scale :: tensor where
  "double_scale = \<lparr>dtype = Float64, device_type = ''cpu'', shape = [2], data = [1, 1]\<rparr>"

definition rms_single :: rms_norm_module where
  "rms_single = \<lparr>rms_eps = 1 / 100000, rms_weight = Some single_scale\<rparr>"

definition rms_double :: rms_norm_module where
  "rms_double = \<lparr>rms_eps = 1 / 100000, rms_weight = Some double_scale\<rparr>"

definition double_batch :: tensor where
  "double_batch =
     \<lparr>dtype = Float64, device_type = ''cpu'', shape = [2, 2], data = [3, 4, 6, 8]\<rparr>"

definition single_batch :: tensor where
  "single_batch =
     \<lparr>dtype = Float32, device_type = ''cpu'', shape = [2, 2], data = [3, 4, 6, 8]\<rparr>"

definition ln_single :: layer_norm_module where
  "ln_single =
     \<lparr>ln_normalized_shape = [2], ln_eps = 1 / 100000,
      ln_weight = Some single_scale, ln_bias = Some shift\<rparr>"

definition big_half :: tensor where
  "big_half = \<lparr>dtype = Float16, device_type = ''cpu'', shape = [2], data = [300, 400]\<rparr>"

text \<open>A weight of shape (3, 2), for a module whose normalized shape is (3, 2).\<close>

definition wide_scale :: tensor where
  "wide_scale =
     \<lparr>dtype = Float32, device_type = ''cpu'', shape = [3, 2], data = [1, 1, 1, 1, 1, 1]\<rparr>"

section \<open>Auxiliary facts\<close>

subsection \<open>Results\<close>

lemma bind_res_Inl: "bind_res (Inl e) f = Inl e"
  by (simp add: bind_res_def)

lemma bind_res_Inr: "bind_res (Inr v) f = f v"
  by (simp add: bind_res_def)

lemma bind_res_assoc: "bind_res (bind_res r f) g = bind_res r (\<lambda>v. bind_res (f v) g)"
  by (cases r) (simp_all add: bind_res_def)

lemma bind_res_return: "bind_res r Inr = r"
  by (cases r) (simp_all add: bind_res_def)

lemma bind_res_eq_Inr: "bind_res r f = Inr y \<longleftrightarrow> (\<exists>v. r = Inr v \<and> f v = Inr y)"
  by (cases r) (simp_all add: bind_res_def)

lemma map_res_eq_Inr: "map_res f r = Inr y \<longleftrightarrow> (\<exists>v. r = Inr v \<and> y = f v)"
  by (cases r) (auto simp add: map_res_def)

lemma Inr_projr: "\<not> isl r \<Longrightarrow> r = Inr (projr r)"
  by (cases r) simp_all




subsection \<open>The core as the formula followed by the optional scaling\<close>

lemma rms_norm_unfold:
  "rms_norm rt env x weight eps =
     bind_res (rms_formula rt env x eps)
       (\<lambda>output. case weight of Some w \<Rightarrow> tensor_mul rt env output w | None \<Rightarrow> Inr output)"
  by (simp add: rms_norm_def rms_formula_def bind_res_assoc)

lemma cast_param_eq:
  assumes "map_option (cast_if_autocast_enabled rt env) p = map_option Inr p'"
  shows "cast_param rt env p = Inr p'"
  using assms by (cases p; cases p') (simp_all add: cast_param_def map_res_def)

subsection \<open>Broadcasting\<close>

lemma broadcast_rev_self: "broadcast_rev r r = Some r"
  by (induction r) simp_all

lemma broadcast_rev_Nil2: "broadcast_rev p [] = Some p"
  by (cases p) simp_all

lemma broadcast_rev_prefix: "broadcast_rev (w @ p) w = Some (w @ p)"
  by (induction w) (simp_all add: broadcast_rev_Nil2)

text \<open>A shape absorbs any of its own trailing parts.\<close>

lemma broadcast_shapes_suffix:
  assumes "suffix w s"
  shows "broadcast_shapes s w = Some s"
proof -
  from assms obtain p where "s = p @ w" by (auto simp: suffix_def)
  then show ?thesis
    by (simp add: broadcast_shapes_def broadcast_rev_prefix)
qed

text \<open>A shape absorbs its own reduction along the last axis.\<close>

lemma broadcast_shapes_keepdim: "broadcast_shapes s (keepdim_shape s) = Some s"
proof (cases s rule: rev_cases)
  case Nil
  then show ?thesis by (simp add: keepdim_shape_def broadcast_shapes_def)
next
  case (snoc p a)
  then show ?thesis
    by (simp add: keepdim_shape_def broadcast_shapes_def broadcast_rev_self)
qed

subsection \<open>Shapes through the module's functions\<close>

lemma cast_shape:
  assumes "shape_rules rt" and "cast_if_autocast_enabled rt env t = Inr t'"
  shows "shape t' = shape t"
  using assms
  by (auto simp: cast_if_autocast_enabled_def shape_rules_def split: if_splits)

lemma cast_param_shape:
  assumes "shape_rules rt" and "cast_param rt env p = Inr p'"
    and "case p of None \<Rightarrow> True | Some w \<Rightarrow> suffix (shape w) s"
  shows "case p' of None \<Rightarrow> True | Some w \<Rightarrow> suffix (shape w) s"
  using assms
  by (auto simp: cast_param_def map_res_eq_Inr dest: cast_shape split: option.splits)

lemma rms_formula_shape:
  assumes rules: "shape_rules rt" and ok: "rms_formula rt env x eps = Inr y"
  shows "shape y = shape x"
proof -
  from ok obtain sq ms sh r where
    sq: "tensor_pow rt env x 2 = Inr sq" and
    ms: "tensor_mean_last rt env sq = Inr ms" and
    sh: "tensor_add_scalar rt env ms eps = Inr sh" and
    r: "tensor_rsqrt rt env sh = Inr r" and
    y: "tensor_mul rt env x r = Inr y"
    by (auto simp: rms_formula_def bind_res_eq_Inr)
  from rules sq have "shape sq = shape x" by (simp add: shape_rules_def)
  with rules ms have "shape ms = keepdim_shape (shape x)" by (simp add: shape_rules_def)
  with rules sh have "shape sh = keepdim_shape (shape x)" by (simp add: shape_rules_def)
  with rules r have "shape r = keepdim_shape (shape x)" by (simp add: shape_rules_def)
  moreover from rules y have "broadcast_shapes (shape x) (shape r) = Some (shape y)"
    by (simp add: shape_rules_def)
  ultimately show ?thesis by (simp add: broadcast_shapes_keepdim)
qed

lemma rms_norm_shape:
  assumes rules: "shape_rules rt"
    and sup: "case weight of None \<Rightarrow> True | Some w \<Rightarrow> suffix (shape w) (shape x)"
    and ok: "rms_norm rt env x weight eps = Inr y"
  shows "shape y = shape x"
proof -
  from ok obtain out where
    out: "rms_formula rt env x eps = Inr out" and
    y: "(case weight of Some w \<Rightarrow> tensor_mul rt env out w | None \<Rightarrow> Inr out) = Inr y"
    by (auto simp: rms_norm_unfold bind_res_eq_Inr)
  from rules out have so: "shape out = shape x" by (rule rms_formula_shape)
  show ?thesis
  proof (cases weight)
    case None
    with y so show ?thesis by simp
  next
    case (Some w)
    with y have "tensor_mul rt env out w = Inr y" by simp
    with rules have "broadcast_shapes (shape out) (shape w) = Some (shape y)"
      by (simp add: shape_rules_def)
    moreover from sup Some have "suffix (shape w) (shape out)" by (simp add: so)
    ultimately show ?thesis using so by (simp add: broadcast_shapes_suffix)
  qed
qed

lemma RMSNorm_forward_shape:
  assumes rules: "shape_rules rt"
    and sup: "case rms_weight m of None \<Rightarrow> True | Some w \<Rightarrow> suffix (shape w) (shape x)"
    and ok: "RMSNorm_forward rt env m x = Inr y"
  shows "shape y = shape x"
proof -
  have to: "\<And>t d. shape (tensor_to rt t d) = shape t"
    using rules by (simp add: shape_rules_def)
  show ?thesis
  proof (cases "using_pjrt rt env")
    case True
    with ok obtain r where "rms_norm rt env x (rms_weight m) (rms_eps m) = Inr r"
      and "y = tensor_to rt r (dtype x)"
      by (auto simp: RMSNorm_forward_def map_res_eq_Inr)
    with rules sup show ?thesis by (simp add: to rms_norm_shape)
  next
    case False
    with ok obtain r where
      r: "rms_norm rt env (tensor_float rt x) (rms_weight m) (rms_eps m) = Inr r"
      and y: "y = tensor_to rt r (dtype x)"
      by (auto simp: RMSNorm_forward_def map_res_eq_Inr)
    have "shape (tensor_float rt x) = shape x" by (simp add: tensor_float_def to)
    with sup have "case rms_weight m of None \<Rightarrow> True
      | Some w \<Rightarrow> suffix (shape w) (shape (tensor_float rt x))"
      by (simp split: option.splits)
    from rms_norm_shape [OF rules this r] have "shape r = shape (tensor_float rt x)" .
    with y show ?thesis by (simp add: to tensor_float_def)
  qed
qed

lemma LPRMSNorm_forward_shape:
  assumes rules: "shape_rules rt"
    and sup: "case rms_weight m of None \<Rightarrow> True | Some w \<Rightarrow> suffix (shape w) (shape x)"
    and ok: "LPRMSNorm_forward rt env m x = Inr y"
  shows "shape y = shape x"
proof -
  have to: "\<And>t d. shape (tensor_to rt t d) = shape t"
    using rules by (simp add: shape_rules_def)
  show ?thesis
  proof (cases "using_pjrt rt env")
    case True
    with ok obtain r where "rms_norm rt env x (rms_weight m) (rms_eps m) = Inr r"
      and "y = tensor_to rt r (dtype x)"
      by (auto simp: LPRMSNorm_forward_def map_res_eq_Inr)
    with rules sup show ?thesis by (simp add: to rms_norm_shape)
  next
    case False
    with ok obtain dx dw env' r where
      dx: "cast_if_autocast_enabled rt env x = Inr dx" and
      dw: "cast_param rt env (rms_weight m) = Inr dw" and
      r: "rms_norm rt env' dx dw (rms_eps m) = Inr r" and
      y: "y = tensor_to rt r (dtype x)"
      by (auto simp: LPRMSNorm_forward_def bind_res_eq_Inr map_res_eq_Inr)
    from rules dx have sdx: "shape dx = shape x" by (rule cast_shape)
    from cast_param_shape [OF rules dw sup]
    have "case dw of None \<Rightarrow> True | Some w \<Rightarrow> suffix (shape w) (shape dx)"
      by (simp add: sdx split: option.splits)
    from rms_norm_shape [OF rules this r] have "shape r = shape dx" .
    with y sdx show ?thesis by (simp add: to)
  qed
qed

lemma LPLayerNorm_forward_shape:
  assumes rules: "shape_rules rt" and ok: "LPLayerNorm_forward rt env m x = Inr y"
  shows "shape y = shape x"
proof -
  have ln: "\<And>e t ns w b eps u. layer_norm rt e t ns w b eps = Inr u \<Longrightarrow> shape u = shape t"
    using rules by (simp add: shape_rules_def)
  show ?thesis
  proof (cases "using_pjrt rt env")
    case True
    with ok show ?thesis by (auto simp: LPLayerNorm_forward_def dest: ln)
  next
    case False
    with ok obtain dx dw db env' where
      dx: "cast_if_autocast_enabled rt env x = Inr dx" and
      y: "layer_norm rt env' dx (ln_normalized_shape m) dw db (ln_eps m) = Inr y"
      by (auto simp: LPLayerNorm_forward_def bind_res_eq_Inr)
    from rules dx have "shape dx = shape x" by (rule cast_shape)
    with ln [OF y] show ?thesis by simp
  qed
qed

subsection \<open>The registry\<close>

lemma registry_names:
  "dom NORM_CLASS_REGISTRY =
     {''layernorm'', ''low_precision_layernorm'', ''rmsnorm'', ''low_precision_rmsnorm''}"
  by (simp add: NORM_CLASS_REGISTRY_def dom_map_of_conv_image_fst)

lemma registry_lookup:
  "NORM_CLASS_REGISTRY ''layernorm'' = Some LayerNorm"
  "NORM_CLASS_REGISTRY ''low_precision_layernorm'' = Some LPLayerNorm"
  "NORM_CLASS_REGISTRY ''rmsnorm'' = Some RMSNorm"
  "NORM_CLASS_REGISTRY ''low_precision_rmsnorm'' = Some LPRMSNorm"
  by (simp_all add: NORM_CLASS_REGISTRY_def)

lemma registry_classes: "ran NORM_CLASS_REGISTRY = UNIV"
proof -
  have "c \<in> ran NORM_CLASS_REGISTRY" for c
    by (cases c) (auto intro: ranI registry_lookup)
  then show ?thesis by auto
qed

subsection \<open>The reference runtime\<close>

lemma ref_casts_to_requested: "casts_to_requested ref_torch"
  by (simp add: casts_to_requested_def ref_torch_def ref_to_def)

lemma ref_shape_rules: "shape_rules ref_torch"
  unfolding shape_rules_def
  by (auto simp: ref_torch_def ref_to_def ref_pow_def ref_mean_last_def ref_add_scalar_def
      ref_rsqrt_def ref_mul_def ref_layer_norm_def Let_def keepdim_shape_def
      split: if_splits option.splits)

lemma replicate_numeral: "replicate (numeral k) x = x # replicate (pred_numeral k) x"
  by (simp add: numeral_eq_Suc)

lemmas ref_eval =
  ref_torch_def ref_to_def ref_pow_def ref_mean_last_def ref_add_scalar_def ref_rsqrt_def
  ref_mul_def ref_autocast_def keepdim_shape_def rows_def broadcast_shapes_def broadcast_data_def
  promote_types_def bind_res_def map_res_def upt_rec replicate_numeral

lemmas examples =
  env_plain_def env_autocast_def env_pjrt_def on_cuda_def on_cpu_def on_xla_def half_batch_def
  scale_def shift_def rms_plain_def rms_scaled_def ln_affine_def

lemma rsqrt_value: "\<bar>2 * (1 / sqrt (4 + 1 / 100000)) - 999998 / 1000000\<bar> < 1 / 1000000"
proof -
  define s where "s = sqrt (4 + 1 / 100000 :: real)"
  have lo: "20000024 / 10000000 < s"
    unfolding s_def by (rule real_less_rsqrt) (simp add: power2_eq_square)
  have hi: "s < 20000026 / 10000000"
    unfolding s_def by (rule real_less_lsqrt) (simp_all add: power2_eq_square)
  from lo have pos: "0 < s" by simp
  have a: "2 * (1 / s) < 999999 / 1000000"
    using lo pos by (simp add: field_simps)
  have b: "999997 / 1000000 < 2 * (1 / s)"
    using hi pos by (simp add: field_simps)
  from a b have "\<bar>2 * (1 / s) - 999998 / 1000000\<bar> < 1 / 1000000"
    by linarith
  then show ?thesis unfolding s_def .
qed

lemma RMSNorm_runs:
  "\<not> isl (RMSNorm_forward ref_torch env_pjrt rms_scaled half_batch)"
  "\<not> isl (RMSNorm_forward ref_torch env_autocast rms_scaled half_batch)"
  by (simp_all add: RMSNorm_forward_def rms_norm_def tensor_float_def examples ref_eval)

lemma LPRMSNorm_runs:
  "\<not> isl (LPRMSNorm_forward ref_torch env_pjrt rms_scaled half_batch)"
  "\<not> isl (LPRMSNorm_forward ref_torch env_autocast rms_scaled half_batch)"
  by (simp_all add: LPRMSNorm_forward_def rms_norm_def cast_param_def
      cast_if_autocast_enabled_def examples ref_eval)

subsection \<open>Rows and broadcast data\<close>

lemma upt_Suc_shift: "[0..<Suc k] = 0 # map Suc [0..<k]"
  by (simp only: map_Suc_upt upt_conv_Cons [of 0 "Suc k"] zero_less_Suc)

lemma rows_Suc:
  assumes "length xs = Suc k * n" and "0 < n"
  shows "rows n xs = take n xs # rows n (drop n xs)"
proof -
  have a: "length xs div n = Suc k" using assms by (simp only: nonzero_mult_div_cancel_right) 
  have "length (drop n xs) = k * n" using assms by simp
  then have b: "length (drop n xs) div n = k" using assms(2) by (simp only: nonzero_mult_div_cancel_right) 
  have c: "map (\<lambda>i. take n (drop (i * n) xs)) [0..<Suc k]
      = take n xs # map (\<lambda>i. take n (drop (i * n) (drop n xs))) [0..<k]"
    unfolding upt_Suc_shift by (simp add: comp_def add.commute)
  show ?thesis unfolding rows_def a b c ..
qed


lemma rows_Nil: "rows n [] = []"
  by (simp add: rows_def)

lemma concat_rows:
  assumes "length xs = k * n" and "0 < n"
  shows "concat (rows n xs) = xs"
  using assms
proof (induction k arbitrary: xs)
  case 0
  then show ?case by (simp add: rows_Nil)
next
  case (Suc k)
  from Suc.prems have "length (drop n xs) = k * n" by simp
  with Suc.IH Suc.prems(2) have "concat (rows n (drop n xs)) = drop n xs" by blast
  moreover from Suc.prems have "rows n xs = take n xs # rows n (drop n xs)"
    by (rule rows_Suc)
  ultimately show ?case by simp
qed

lemma rows_lengths:
  assumes "length xs = k * n" and "0 < n"
  shows "length (rows n xs) = k \<and> list_all (\<lambda>r. length r = n) (rows n xs)"
  using assms
proof (induction k arbitrary: xs)
  case 0
  then show ?case by (simp add: rows_Nil)
next
  case (Suc k)
  from Suc.prems have l: "length (drop n xs) = k * n" by simp
  with Suc.IH Suc.prems(2)
  have "length (rows n (drop n xs)) = k \<and> list_all (\<lambda>r. length r = n) (rows n (drop n xs))"
    by blast
  moreover from Suc.prems have "rows n xs = take n xs # rows n (drop n xs)"
    by (rule rows_Suc)
  moreover from Suc.prems have "length (take n xs) = n" by simp
  ultimately show ?case by simp
qed

lemma rows_map: "rows n (map g xs) = map (map g) (rows n xs)"
  by (simp add: rows_def take_map drop_map)


lemma chunk_length:
  assumes "length d = a * p" and "i < a"
  shows "length (take p (drop (i * p) d)) = p"
proof -
  from assms(2) obtain j where "a = Suc (i + j)" by (auto dest: less_imp_Suc_add)
  with assms(1) have "length d - i * p = p + j * p" by (simp add: algebra_simps)
  then show ?thesis by simp
qed

lemma concat_chunks:
  assumes "length d = a * p"
  shows "concat (map (\<lambda>i. take p (drop (i * p) d)) [0..<a]) = d"
proof (cases "p = 0")
  case True
  with assms show ?thesis by simp
next
  case False
  with assms have "length d div p = a" by simp
  with concat_rows [OF assms] False show ?thesis by (simp add: rows_def)
qed

lemma expand_same:
  assumes "length d = prod_list s"
  shows "expand s s d = d"
  using assms
proof (induction s arbitrary: d)
  case Nil
  then show ?case by simp
next
  case (Cons a ss)
  let ?p = "prod_list ss"
  from Cons.prems have len: "length d = a * ?p" by simp
  have "map (\<lambda>i. expand ss ss (take ?p (drop (i * ?p) d))) [0..<a]
      = map (\<lambda>i. take ?p (drop (i * ?p) d)) [0..<a]"
  proof (rule map_cong [OF refl])
    fix i assume "i \<in> set [0..<a]"
    then have "i < a" by simp
    from chunk_length [OF len this]
    show "expand ss ss (take ?p (drop (i * ?p) d)) = take ?p (drop (i * ?p) d)"
      by (rule Cons.IH)
  qed
  moreover have "expand (a # ss) (a # ss) d
      = concat (map (\<lambda>i. expand ss ss (take ?p (drop (i * ?p) d))) [0..<a])"
    by simp
  ultimately show ?case by (simp only: concat_chunks [OF len])
qed

lemma concat_replicate_single: "concat (replicate n [c]) = replicate n c"
  by (induction n) simp_all

lemma expand_keepdim:
  assumes "length d = prod_list s"
  shows "expand (s @ [1]) (s @ [n]) d = concat (map (replicate n) d)"
  using assms
proof (induction s arbitrary: d)
  case Nil
  then obtain c where "d = [c]" by (cases d) simp_all
  then show ?case by (auto simp: Let_def concat_replicate_single)
next
  case (Cons a ss)
  let ?p = "prod_list ss"
  from Cons.prems have len: "length d = a * ?p" by simp
  have "map (\<lambda>i. expand (ss @ [1]) (ss @ [n]) (take ?p (drop (i * ?p) d))) [0..<a]
      = map (\<lambda>i. concat (map (replicate n) (take ?p (drop (i * ?p) d)))) [0..<a]"
  proof (rule map_cong [OF refl])
    fix i assume "i \<in> set [0..<a]"
    then have "i < a" by simp
    from chunk_length [OF len this]
    show "expand (ss @ [1]) (ss @ [n]) (take ?p (drop (i * ?p) d))
        = concat (map (replicate n) (take ?p (drop (i * ?p) d)))"
      by (rule Cons.IH)
  qed
  moreover have "expand ((a # ss) @ [1]) ((a # ss) @ [n]) d
      = concat (map (\<lambda>i. expand (ss @ [1]) (ss @ [n]) (take ?p (drop (i * ?p) d))) [0..<a])"
    by simp
  moreover have "concat (map (\<lambda>i. concat (map (replicate n) (take ?p (drop (i * ?p) d)))) [0..<a])
      = concat (map (replicate n) (concat (map (\<lambda>i. take ?p (drop (i * ?p) d)) [0..<a])))"
    by (induction a) (simp_all add: map_concat)
  ultimately show ?case by (simp only: concat_chunks [OF len])
qed

lemma map2_replicate:
  "length r = n \<Longrightarrow> map2 (*) r (replicate n c) = map (\<lambda>v. v * c) r" for c :: real
  by (induction r arbitrary: n) auto

lemma map2_rows:
  fixes f :: "real list \<Rightarrow> real"
  assumes "list_all (\<lambda>r. length r = n) rs"
  shows "map2 (*) (concat rs) (concat (map (replicate n) (map f rs)))
       = concat (map (\<lambda>r. map (\<lambda>v. v * f r) r) rs)"
  using assms
  by (induction rs) (simp_all add: map2_replicate)


lemma expand_leading:
  assumes "length d = n"
  shows "expand (replicate (length s) 1 @ [n]) (s @ [n]) d = concat (replicate (prod_list s) d)"
proof (induction s)
  case Nil
  have "concat (map (\<lambda>i. take 1 (drop i d)) [0..<n]) = d"
    using concat_chunks [of d n 1] assms by simp
  then show ?case by simp
next
  case (Cons a ss)
  have p: "prod_list (replicate (length ss) 1 @ [n]) = n"
    by (simp add: prod_list_replicate)
  have "expand (replicate (length (a # ss)) 1 @ [n]) ((a # ss) @ [n]) d
      = (let blocks = expand (replicate (length ss) 1 @ [n]) (ss @ [n]) (take n d)
         in if 1 = a then blocks else concat (replicate a blocks))"
    by (simp add: p del: replicate.simps) (simp add: Let_def)
  also have "\<dots> = (if 1 = a then concat (replicate (prod_list ss) d)
                      else concat (replicate a (concat (replicate (prod_list ss) d))))"
    using assms by (simp only: Let_def Cons.IH take_all order_refl)
  also have "\<dots> = concat (replicate a (concat (replicate (prod_list ss) d)))"
    by (cases "a = 1") auto
  also have "\<dots> = concat (replicate (prod_list (a # ss)) d)"
    by (induction a) (simp_all add: replicate_add)
  finally show ?case .
qed

lemma map2_rows_same:
  fixes g :: "real list \<Rightarrow> real list"
  assumes "list_all (\<lambda>r. length (g r) = length d) rs"
  shows "map2 (*) (concat (map g rs)) (concat (replicate (length rs) d))
       = concat (map (\<lambda>r. map2 (*) (g r) d) rs)"
  using assms by (induction rs) simp_all

lemma length_concat_rows:
  assumes "list_all (\<lambda>r. length (g r) = n) rs"
  shows "length (concat (map g rs)) = length rs * n"
  using assms by (induction rs) simp_all


subsection \<open>The reference runtime computes the row formula\<close>

text \<open>
  For an input of any shape \<open>s @ [n]\<close> whose data fill the shape, and a positive
  eps, the formula of section 4.3 in the reference runtime is \<open>rms_row\<close> on each
  row of \<open>n\<close> elements; a weight of shape \<open>[n]\<close> multiplies every row elementwise.
\<close>

lemma ref_rms_formula_rows:
  assumes shp: "shape x = s @ [n]" and n: "0 < n"
    and len: "length (data x) = prod_list s * n" and eps: "0 < eps"
  shows "rms_formula ref_torch env x eps =
           Inr (x\<lparr>data := concat (map (rms_row eps) (rows n (data x)))\<rparr>)"
proof -
  let ?rows = "rows n (data x)"
  define f where "f r = 1 / sqrt (sum_list (map (\<lambda>u. u ^ 2) r) / real n + eps)" for r :: "real list"
  define rs where "rs = map f ?rows"
  from rows_lengths [OF len n]
  have rl: "length ?rows = prod_list s" and rn: "list_all (\<lambda>r. length r = n) ?rows"
    by simp_all
  have keep: "shape x \<noteq> []" "last (shape x) = n" "keepdim_shape (shape x) = s @ [1]"
    by (simp_all add: shp keepdim_shape_def)
  have sq: "tensor_pow ref_torch env x 2 = Inr (x\<lparr>data := map (\<lambda>v. v ^ 2) (data x)\<rparr>)"
    by (simp add: ref_torch_def ref_pow_def)
  have ms: "tensor_mean_last ref_torch env (x\<lparr>data := map (\<lambda>v. v ^ 2) (data x)\<rparr>)
      = Inr (x\<lparr>shape := s @ [1],
               data := map (\<lambda>r. sum_list (map (\<lambda>u. u ^ 2) r) / real n) ?rows\<rparr>)"
    using keep n by (simp add: ref_torch_def ref_mean_last_def rows_map comp_def)
  have sh: "tensor_add_scalar ref_torch env
        (x\<lparr>shape := s @ [1], data := map (\<lambda>r. sum_list (map (\<lambda>u. u ^ 2) r) / real n) ?rows\<rparr>) eps
      = Inr (x\<lparr>shape := s @ [1],
               data := map (\<lambda>r. sum_list (map (\<lambda>u. u ^ 2) r) / real n + eps) ?rows\<rparr>)"
    by (simp add: ref_torch_def ref_add_scalar_def comp_def)
  have pos: "0 < sum_list (map (\<lambda>u. u ^ 2) r) / real n + eps" for r :: "real list"
  proof -
    have "0 \<le> sum_list (map (\<lambda>u. u ^ 2) r)" by (rule sum_list_nonneg) auto
    with n eps show ?thesis by (simp add: add_nonneg_pos)
  qed
  have r: "tensor_rsqrt ref_torch env
        (x\<lparr>shape := s @ [1],
           data := map (\<lambda>r. sum_list (map (\<lambda>u. u ^ 2) r) / real n + eps) ?rows\<rparr>)
      = Inr (x\<lparr>shape := s @ [1], data := rs\<rparr>)"
    by (simp add: ref_torch_def ref_rsqrt_def list_all_iff pos rs_def f_def comp_def)
  have bx: "broadcast_data (s @ [n]) (s @ [n]) (data x) = data x"
    by (simp add: broadcast_data_def expand_same len)
  have lrs: "length rs = prod_list s" by (simp add: rs_def rl)
  have br: "broadcast_data (s @ [1]) (s @ [n]) rs = concat (map (replicate n) rs)"
    using expand_keepdim [OF lrs, of n] by (simp add: broadcast_data_def)
  have bs: "broadcast_shapes (s @ [n]) (s @ [1]) = Some (s @ [n])"
    using broadcast_shapes_keepdim [of "s @ [n]"] by (simp add: keepdim_shape_def)
  have "map2 (*) (data x) (concat (map (replicate n) rs))
      = map2 (*) (concat ?rows) (concat (map (replicate n) (map f ?rows)))"
    by (simp add: concat_rows [OF len n] rs_def)
  also have "\<dots> = concat (map (\<lambda>r. map (\<lambda>v. v * f r) r) ?rows)"
    by (rule map2_rows [OF rn])
  also have "\<dots> = concat (map (rms_row eps) ?rows)"
  proof -
    have "map (\<lambda>r. map (\<lambda>v. v * f r) r) ?rows = map (rms_row eps) ?rows"
    proof (rule map_cong [OF refl])
      fix r assume "r \<in> set ?rows"
      with rn have "length r = n" by (simp add: list_all_iff)
      then show "map (\<lambda>v. v * f r) r = rms_row eps r" by (simp add: rms_row_def f_def)
    qed
    then show ?thesis by (rule arg_cong)
  qed
  finally have prod: "map2 (*) (data x) (concat (map (replicate n) rs))
      = concat (map (rms_row eps) ?rows)" .
  have mul: "tensor_mul ref_torch env x (x\<lparr>shape := s @ [1], data := rs\<rparr>)
      = Inr (x\<lparr>data := concat (map (rms_row eps) ?rows)\<rparr>)"
    using bs bx br prod
    by (simp add: ref_torch_def ref_mul_def promote_types_def shp)
  show ?thesis
    by (simp only: rms_formula_def sq ms sh r mul bind_res_Inr)
qed



lemma ref_rms_norm_weighted_rows:
  assumes shp: "shape x = s @ [n]" and n: "0 < n"
    and len: "length (data x) = prod_list s * n" and eps: "0 < eps"
    and w: "shape w = [n]" "length (data w) = n" "device_type w = device_type x"
  shows "rms_norm ref_torch env x (Some w) eps =
           Inr \<lparr>dtype = promote_types (dtype x) (dtype w), device_type = device_type x,
                shape = s @ [n],
                data = concat (map (\<lambda>r. map2 (*) (rms_row eps r) (data w))
                                  (rows n (data x)))\<rparr>"
proof -
  let ?rows = "rows n (data x)"
  let ?out = "concat (map (rms_row eps) ?rows)"
  from rows_lengths [OF len n]
  have rl: "length ?rows = prod_list s" and rn: "list_all (\<lambda>r. length r = n) ?rows"
    by simp_all
  from rn have gn: "list_all (\<lambda>r. length (rms_row eps r) = length (data w)) ?rows"
    by (simp add: list_all_iff rms_row_def w)
  then have lo: "length ?out = prod_list (s @ [n])"
    using length_concat_rows [of "rms_row eps" "length (data w)" ?rows] by (simp add: rl w)
  have bs: "broadcast_shapes (s @ [n]) [n] = Some (s @ [n])"
    by (rule broadcast_shapes_suffix) simp
  have bo: "broadcast_data (s @ [n]) (s @ [n]) ?out = ?out"
    using expand_same [OF lo] by (simp add: broadcast_data_def)
  have bw: "broadcast_data [n] (s @ [n]) (data w) = concat (replicate (length ?rows) (data w))"
    using expand_leading [OF w(2), of s] by (simp add: broadcast_data_def rl)
  have "tensor_mul ref_torch env (x\<lparr>data := ?out\<rparr>) w =
          Inr \<lparr>dtype = promote_types (dtype x) (dtype w), device_type = device_type x,
               shape = s @ [n],
               data = concat (map (\<lambda>r. map2 (*) (rms_row eps r) (data w)) ?rows)\<rparr>"
    using bs bo bw map2_rows_same [OF gn]
    by (simp add: ref_torch_def ref_mul_def shp w)
  with ref_rms_formula_rows [OF shp n len eps, of env] show ?thesis
    by (simp add: rms_norm_unfold bind_res_Inr)
qed

subsection \<open>The two paths in exact arithmetic\<close>

text \<open>
  In the reference runtime, whose arithmetic does not round, the pjrt path and
  the default path return the same tensor: for \<open>RMSNorm\<close> always, for the
  low-precision layers when autocast is inactive and the input is on a device
  type that \<open>torch.autocast\<close> accepts. What separates the two paths of \<open>RMSNorm\<close>
  in the real runtime is the finite precision and range of the dtype of \<open>x\<close>,
  at which the pjrt path computes.
\<close>

lemmas ref_ops =
  ref_torch_def ref_to_def ref_pow_def ref_mean_last_def ref_add_scalar_def ref_rsqrt_def
  ref_mul_def ref_autocast_def

lemma ref_RMSNorm_paths:
  assumes "pjrt_on e1" and "\<not> pjrt_on e2"
  shows "RMSNorm_forward ref_torch e1 m x = RMSNorm_forward ref_torch e2 m x"
  using assms
  by (cases "rms_weight m")
    (simp_all add: RMSNorm_forward_def rms_norm_def tensor_float_def ref_ops bind_res_def
      map_res_def split: option.splits)

lemma ref_LPRMSNorm_paths:
  assumes "pjrt_on e1" and "\<not> pjrt_on e2" and "\<not> autocast_on e2"
    and "device_type x = ''cuda'' \<or> device_type x = ''cpu''"
  shows "LPRMSNorm_forward ref_torch e1 m x = LPRMSNorm_forward ref_torch e2 m x"
  using assms
  by (cases "rms_weight m")
    (simp_all add: LPRMSNorm_forward_def rms_norm_def cast_param_def cast_if_autocast_enabled_def
      ref_ops bind_res_def map_res_def split: option.splits)

lemma ref_LPLayerNorm_paths:
  assumes "pjrt_on e1" and "\<not> pjrt_on e2" and "\<not> autocast_on e2"
    and "device_type x = ''cuda'' \<or> device_type x = ''cpu''"
  shows "LPLayerNorm_forward ref_torch e1 m x = LPLayerNorm_forward ref_torch e2 m x"
  using assms
  by (cases "ln_weight m"; cases "ln_bias m")
    (simp_all add: LPLayerNorm_forward_def cast_param_def cast_if_autocast_enabled_def
      ref_torch_def ref_autocast_def ref_layer_norm_def bind_res_def map_res_def)

subsection \<open>The steps of the core and their dtypes\<close>




lemmas examples2 =
  single_scale_def double_scale_def double_batch_def rms_single_def rms_double_def
  single_batch_def ln_single_def big_half_def



subsection \<open>The two paths in a runtime whose arithmetic ignores the pjrt mode\<close>








section \<open>The claims\<close>

text \<open>
  Claim C1. For every input \<open>x\<close>, optional weight and eps, \<open>rms_norm\<close> returns the
  formula \<open>x * rsqrt(mean(x^2, last axis, keepdim) + eps)\<close>: exactly that when the
  weight is \<open>None\<close>, and that multiplied elementwise by the weight when there is
  one. A failure inside the formula is the failure of \<open>rms_norm\<close>.
\<close>

theorem rms_norm_formula:
  "rms_norm rt env x None eps = rms_formula rt env x eps \<and>
   rms_norm rt env x (Some w) eps =
     bind_res (rms_formula rt env x eps) (\<lambda>output. tensor_mul rt env output w)"
  by (simp add: rms_norm_unfold bind_res_return)

text \<open>
  Claim C2. The output of \<open>RMSNorm.forward(x)\<close> and of \<open>LPRMSNorm.forward(x)\<close> has
  the dtype of \<open>x\<close>. The statement holds in every execution context, so on the
  pjrt fast path and on the default path alike, and whatever dtype the
  computation ran at in between: every path ends in \<^verbatim>\<open>.to(dtype=x.dtype)\<close>.
\<close>

theorem forward_dtype:
  assumes "casts_to_requested rt"
  shows "(RMSNorm_forward rt env m x = Inr y \<longrightarrow> dtype y = dtype x) \<and>
         (LPRMSNorm_forward rt env m x = Inr z \<longrightarrow> dtype z = dtype x)"
  using assms
  by (auto simp: RMSNorm_forward_def LPRMSNorm_forward_def casts_to_requested_def
      bind_res_eq_Inr map_res_eq_Inr split: if_splits)

text \<open>
  Both modules on a half-precision input, in pjrt mode and with autocast
  active: each call returns, and returns a half-precision tensor.
\<close>

theorem forward_dtype_witness:
  "casts_to_requested ref_torch \<and>
   \<not> isl (RMSNorm_forward ref_torch env_pjrt rms_scaled half_batch) \<and>
   dtype (projr (RMSNorm_forward ref_torch env_pjrt rms_scaled half_batch)) = Float16 \<and>
   \<not> isl (LPRMSNorm_forward ref_torch env_pjrt rms_scaled half_batch) \<and>
   dtype (projr (LPRMSNorm_forward ref_torch env_pjrt rms_scaled half_batch)) = Float16 \<and>
   \<not> isl (RMSNorm_forward ref_torch env_autocast rms_scaled half_batch) \<and>
   dtype (projr (RMSNorm_forward ref_torch env_autocast rms_scaled half_batch)) = Float16 \<and>
   \<not> isl (LPRMSNorm_forward ref_torch env_autocast rms_scaled half_batch) \<and>
   dtype (projr (LPRMSNorm_forward ref_torch env_autocast rms_scaled half_batch)) = Float16"
proof -
  have x: "dtype half_batch = Float16" by (simp add: half_batch_def)
  note fast = forward_dtype [OF ref_casts_to_requested, of env_pjrt rms_scaled half_batch
      "projr (RMSNorm_forward ref_torch env_pjrt rms_scaled half_batch)"
      "projr (LPRMSNorm_forward ref_torch env_pjrt rms_scaled half_batch)"]
  note slow = forward_dtype [OF ref_casts_to_requested, of env_autocast rms_scaled half_batch
      "projr (RMSNorm_forward ref_torch env_autocast rms_scaled half_batch)"
      "projr (LPRMSNorm_forward ref_torch env_autocast rms_scaled half_batch)"]
  from fast slow RMSNorm_runs LPRMSNorm_runs ref_casts_to_requested x
  show ?thesis by (auto dest: Inr_projr)
qed

text \<open>
  Claim C3. The four cases of \<open>_cast_if_autocast_enabled(t)\<close>: without autocast
  the result is \<open>t\<close> itself; with autocast, a tensor on \<open>cuda\<close> is cast to the
  autocast GPU dtype, a tensor on \<open>cpu\<close> to the autocast CPU dtype, and for any
  other device type the call raises \<open>NotImplementedError\<close> and returns nothing.
  The model has values and no object identities: "\<open>t\<close> itself" is the argument,
  returned for every runtime, so that no primitive of the runtime has touched it.
\<close>

theorem cast_if_autocast_enabled_cases:
  "(\<not> is_autocast_enabled rt env \<longrightarrow> cast_if_autocast_enabled rt env t = Inr t) \<and>
   (is_autocast_enabled rt env \<and> device_type t = ''cuda'' \<longrightarrow>
      cast_if_autocast_enabled rt env t = Inr (tensor_to rt t (get_autocast_gpu_dtype rt env))) \<and>
   (is_autocast_enabled rt env \<and> device_type t = ''cpu'' \<longrightarrow>
      cast_if_autocast_enabled rt env t = Inr (tensor_to rt t (get_autocast_cpu_dtype rt env))) \<and>
   (is_autocast_enabled rt env \<and> device_type t \<noteq> ''cuda'' \<and> device_type t \<noteq> ''cpu'' \<longrightarrow>
      cast_if_autocast_enabled rt env t = Inl NotImplementedError)"
  by (simp add: cast_if_autocast_enabled_def)

theorem cast_if_autocast_enabled_cases_witness:
  "\<not> is_autocast_enabled ref_torch env_plain \<and>
   cast_if_autocast_enabled ref_torch env_plain on_xla = Inr on_xla \<and>
   is_autocast_enabled ref_torch env_autocast \<and>
   cast_if_autocast_enabled ref_torch env_autocast on_cuda = Inr (on_cuda\<lparr>dtype := Float16\<rparr>) \<and>
   cast_if_autocast_enabled ref_torch env_autocast on_cpu = Inr (on_cpu\<lparr>dtype := BFloat16\<rparr>) \<and>
   cast_if_autocast_enabled ref_torch env_autocast on_xla = Inl NotImplementedError"
proof -
  have off: "\<not> is_autocast_enabled ref_torch env_plain"
    by (simp add: ref_torch_def env_plain_def)
  have on: "is_autocast_enabled ref_torch env_autocast"
    by (simp add: ref_torch_def env_autocast_def)
  have dev: "device_type on_cuda = ''cuda''" "device_type on_cpu = ''cpu''"
    "device_type on_xla \<noteq> ''cuda''" "device_type on_xla \<noteq> ''cpu''"
    by (simp_all add: on_cuda_def on_cpu_def on_xla_def)
  have dt: "tensor_to ref_torch on_cuda (get_autocast_gpu_dtype ref_torch env_autocast)
      = on_cuda\<lparr>dtype := Float16\<rparr>"
    "tensor_to ref_torch on_cpu (get_autocast_cpu_dtype ref_torch env_autocast)
      = on_cpu\<lparr>dtype := BFloat16\<rparr>"
    by (simp_all add: ref_torch_def ref_to_def env_autocast_def)
  from cast_if_autocast_enabled_cases [of ref_torch env_plain on_xla]
    cast_if_autocast_enabled_cases [of ref_torch env_autocast on_cuda]
    cast_if_autocast_enabled_cases [of ref_torch env_autocast on_cpu]
    cast_if_autocast_enabled_cases [of ref_torch env_autocast on_xla]
    off on dev dt
  show ?thesis by simp
qed

text \<open>
  Claim C4. Outside pjrt mode, \<open>LPLayerNorm.forward(x)\<close> casts \<open>x\<close>, the weight if
  there is one and the bias if there is one, each by its own call of the
  helper, enters \<^verbatim>\<open>torch.autocast(enabled=False, device_type=x.device.type)\<close>, and
  returns what \<open>layer_norm\<close> returns in that context on the three cast values,
  the stored normalized shape and the stored eps. The hypotheses on the
  parameters say: an absent parameter stays absent, a present one is replaced by
  its cast.
\<close>

theorem LPLayerNorm_forward_default:
  assumes "\<not> using_pjrt rt env"
    and "cast_if_autocast_enabled rt env x = Inr downcast_x"
    and "map_option (cast_if_autocast_enabled rt env) (ln_weight m)
           = map_option Inr downcast_weight"
    and "map_option (cast_if_autocast_enabled rt env) (ln_bias m)
           = map_option Inr downcast_bias"
    and "autocast rt False (device_type x) env = Inr env'"
  shows "LPLayerNorm_forward rt env m x =
           layer_norm rt env' downcast_x (ln_normalized_shape m)
             downcast_weight downcast_bias (ln_eps m)"
  using assms
  by (simp add: LPLayerNorm_forward_def cast_param_eq bind_res_Inr)

theorem LPLayerNorm_forward_default_witness:
  "\<not> using_pjrt ref_torch env_autocast \<and>
   cast_if_autocast_enabled ref_torch env_autocast on_cpu = Inr (on_cpu\<lparr>dtype := BFloat16\<rparr>) \<and>
   map_option (cast_if_autocast_enabled ref_torch env_autocast) (ln_weight ln_affine)
     = map_option Inr (Some scale) \<and>
   map_option (cast_if_autocast_enabled ref_torch env_autocast) (ln_bias ln_affine)
     = map_option Inr (Some (shift\<lparr>dtype := BFloat16\<rparr>)) \<and>
   autocast ref_torch False (device_type on_cpu) env_autocast = Inr env_plain \<and>
   LPLayerNorm_forward ref_torch env_autocast ln_affine on_cpu =
     layer_norm ref_torch env_plain (on_cpu\<lparr>dtype := BFloat16\<rparr>)
       (ln_normalized_shape ln_affine)
       (Some scale) (Some (shift\<lparr>dtype := BFloat16\<rparr>)) (ln_eps ln_affine)"
proof -
  have h1: "\<not> using_pjrt ref_torch env_autocast"
    by (simp add: ref_torch_def env_autocast_def)
  have h2: "cast_if_autocast_enabled ref_torch env_autocast on_cpu
      = Inr (on_cpu\<lparr>dtype := BFloat16\<rparr>)"
    by (simp add: cast_if_autocast_enabled_def ref_torch_def ref_to_def env_autocast_def
        on_cpu_def)
  have h3: "map_option (cast_if_autocast_enabled ref_torch env_autocast) (ln_weight ln_affine)
     = map_option Inr (Some scale)"
    by (simp add: cast_if_autocast_enabled_def ref_torch_def ref_to_def env_autocast_def
        ln_affine_def scale_def)
  have h4: "map_option (cast_if_autocast_enabled ref_torch env_autocast) (ln_bias ln_affine)
     = map_option Inr (Some (shift\<lparr>dtype := BFloat16\<rparr>))"
    by (simp add: cast_if_autocast_enabled_def ref_torch_def ref_to_def env_autocast_def
        ln_affine_def shift_def)
  have h5: "autocast ref_torch False (device_type on_cpu) env_autocast = Inr env_plain"
    by (simp add: ref_torch_def ref_autocast_def on_cpu_def env_autocast_def env_plain_def)
  from LPLayerNorm_forward_default [OF h1 h2 h3 h4 h5] h1 h2 h3 h4 h5
  show ?thesis by (intro conjI)
qed







text \<open>
  Claim C7. For each of the four classes in the registry and every supported
  input (the normalized shape is the trailing part of the input's shape), the
  tensor \<open>forward\<close> returns has the shape of the input. The layer-norm classes
  hand the shape to the runtime's \<open>layer_norm\<close>; for the RMS classes the shape
  comes out of two broadcasts, the input against its own row means and the
  result against the weight.
\<close>

theorem registered_forward_keeps_shape:
  assumes "shape_rules rt"
    and "NORM_CLASS_REGISTRY name = Some (class_of m)"
    and "supported_input m x"
    and "forward rt env m x = Inr y"
  shows "shape y = shape x"
proof (cases m)
  case (LayerNorm_obj l)
  with assms show ?thesis by (auto simp: LayerNorm_forward_def shape_rules_def)
next
  case (LPLayerNorm_obj l)
  with assms show ?thesis by (auto dest: LPLayerNorm_forward_shape)
next
  case (RMSNorm_obj r)
  with assms show ?thesis by (auto dest: RMSNorm_forward_shape)
next
  case (LPRMSNorm_obj r)
  with assms show ?thesis by (auto dest: LPRMSNorm_forward_shape)
qed

lemma LayerNorm_runs:
  "\<not> isl (LayerNorm_forward ref_torch env_plain ln_single single_batch)"
  "\<not> isl (LPLayerNorm_forward ref_torch env_autocast ln_affine half_batch)"
  by (simp_all add: LayerNorm_forward_def LPLayerNorm_forward_def cast_param_def
      cast_if_autocast_enabled_def ref_layer_norm_def param_ok_def suffix_def examples
      examples2 ref_eval)

lemma supported_examples:
  "supported_input (LayerNorm_obj ln_single) single_batch"
  "supported_input (LPLayerNorm_obj ln_affine) half_batch"
  "supported_input (RMSNorm_obj rms_scaled) half_batch"
  "supported_input (LPRMSNorm_obj rms_scaled) half_batch"
  by (simp_all add: suffix_def examples examples2)

text \<open>
  One module of each registered class on an input of shape (2, 2): the plain
  \<open>LayerNorm\<close> on 32-bit tensors throughout, the other three on a half-precision
  input with autocast active.
\<close>

theorem registered_forward_keeps_shape_witness:
  "shape_rules ref_torch \<and>
   NORM_CLASS_REGISTRY ''layernorm'' = Some (class_of (LayerNorm_obj ln_single)) \<and>
   supported_input (LayerNorm_obj ln_single) single_batch \<and>
   \<not> isl (forward ref_torch env_plain (LayerNorm_obj ln_single) single_batch) \<and>
   shape (projr (forward ref_torch env_plain (LayerNorm_obj ln_single) single_batch))
     = [2, 2] \<and>
   NORM_CLASS_REGISTRY ''low_precision_layernorm''
     = Some (class_of (LPLayerNorm_obj ln_affine)) \<and>
   supported_input (LPLayerNorm_obj ln_affine) half_batch \<and>
   \<not> isl (forward ref_torch env_autocast (LPLayerNorm_obj ln_affine) half_batch) \<and>
   shape (projr (forward ref_torch env_autocast (LPLayerNorm_obj ln_affine) half_batch))
     = [2, 2] \<and>
   NORM_CLASS_REGISTRY ''rmsnorm'' = Some (class_of (RMSNorm_obj rms_scaled)) \<and>
   supported_input (RMSNorm_obj rms_scaled) half_batch \<and>
   \<not> isl (forward ref_torch env_autocast (RMSNorm_obj rms_scaled) half_batch) \<and>
   shape (projr (forward ref_torch env_autocast (RMSNorm_obj rms_scaled) half_batch))
     = [2, 2] \<and>
   NORM_CLASS_REGISTRY ''low_precision_rmsnorm'' = Some (class_of (LPRMSNorm_obj rms_scaled)) \<and>
   supported_input (LPRMSNorm_obj rms_scaled) half_batch \<and>
   \<not> isl (forward ref_torch env_autocast (LPRMSNorm_obj rms_scaled) half_batch) \<and>
   shape (projr (forward ref_torch env_autocast (LPRMSNorm_obj rms_scaled) half_batch))
     = [2, 2]"
proof -
  have x: "shape half_batch = [2, 2]" "shape single_batch = [2, 2]"
    by (simp_all add: half_batch_def single_batch_def)
  have reg:
    "NORM_CLASS_REGISTRY ''layernorm'' = Some (class_of (LayerNorm_obj ln_single))"
    "NORM_CLASS_REGISTRY ''low_precision_layernorm''
       = Some (class_of (LPLayerNorm_obj ln_affine))"
    "NORM_CLASS_REGISTRY ''rmsnorm'' = Some (class_of (RMSNorm_obj rms_scaled))"
    "NORM_CLASS_REGISTRY ''low_precision_rmsnorm'' = Some (class_of (LPRMSNorm_obj rms_scaled))"
    by (simp_all add: registry_lookup)
  have run:
    "\<not> isl (forward ref_torch env_plain (LayerNorm_obj ln_single) single_batch)"
    "\<not> isl (forward ref_torch env_autocast (LPLayerNorm_obj ln_affine) half_batch)"
    "\<not> isl (forward ref_torch env_autocast (RMSNorm_obj rms_scaled) half_batch)"
    "\<not> isl (forward ref_torch env_autocast (LPRMSNorm_obj rms_scaled) half_batch)"
    by (simp_all add: LayerNorm_runs RMSNorm_runs LPRMSNorm_runs)
  note out = run [THEN Inr_projr]
  from registered_forward_keeps_shape [OF ref_shape_rules reg(1) supported_examples(1) out(1)]
    registered_forward_keeps_shape [OF ref_shape_rules reg(2) supported_examples(2) out(2)]
    registered_forward_keeps_shape [OF ref_shape_rules reg(3) supported_examples(3) out(3)]
    registered_forward_keeps_shape [OF ref_shape_rules reg(4) supported_examples(4) out(4)]
    ref_shape_rules reg supported_examples run x
  show ?thesis by simp
qed

text \<open>
  The hypothesis on the input is needed for the RMS classes, which do not check
  it: an input of shape (2) given to a module whose weight has shape (3, 2) is
  broadcast against the weight, and the output has shape (3, 2).
\<close>

lemma unsupported_input_broadcasts:
  "\<not> supported_input (RMSNorm_obj \<lparr>rms_eps = 1 / 100000, rms_weight = Some wide_scale\<rparr>) on_cpu \<and>
   shape on_cpu = [2] \<and>
   map_res shape
     (forward ref_torch env_plain
        (RMSNorm_obj \<lparr>rms_eps = 1 / 100000, rms_weight = Some wide_scale\<rparr>) on_cpu)
     = Inr [3, 2]"
  by (simp add: RMSNorm_forward_def rms_norm_def tensor_float_def wide_scale_def suffix_def
      examples ref_eval)

text \<open>
  Claim C8, as the specification states it: a tensor on a device type other than
  \<open>cuda\<close> and \<open>cpu\<close>, given to the helper while autocast is disabled, triggers
  the not-implemented failure. The code does the opposite there: the test of
  the device type sits under \<^verbatim>\<open>if torch.is_autocast_enabled()\<close>, and with autocast
  disabled the helper returns its argument. A tensor on \<open>xla\<close>:
\<close>

theorem unsupported_device_autocast_disabled_counterexample:
  "\<not> is_autocast_enabled ref_torch env_plain \<and>
   device_type on_xla \<noteq> ''cuda'' \<and> device_type on_xla \<noteq> ''cpu'' \<and>
   cast_if_autocast_enabled ref_torch env_plain on_xla = Inr on_xla \<and>
   cast_if_autocast_enabled ref_torch env_plain on_xla \<noteq> Inl NotImplementedError"
  by (simp add: cast_if_autocast_enabled_def ref_torch_def env_plain_def on_xla_def)

text \<open>
  Claim C8, amended: for a tensor on a device type other than \<open>cuda\<close> and
  \<open>cpu\<close>, the helper raises \<open>NotImplementedError\<close> whenever autocast is enabled,
  and returns the tensor whenever autocast is disabled.
\<close>

theorem unsupported_device_fails_iff_autocast_enabled:
  assumes "device_type t \<noteq> ''cuda''" and "device_type t \<noteq> ''cpu''"
  shows "(is_autocast_enabled rt env \<longrightarrow>
            cast_if_autocast_enabled rt env t = Inl NotImplementedError) \<and>
         (\<not> is_autocast_enabled rt env \<longrightarrow> cast_if_autocast_enabled rt env t = Inr t)"
  using assms by (simp add: cast_if_autocast_enabled_def)

theorem unsupported_device_fails_iff_autocast_enabled_witness:
  "device_type on_xla \<noteq> ''cuda'' \<and> device_type on_xla \<noteq> ''cpu'' \<and>
   is_autocast_enabled ref_torch env_autocast \<and>
   cast_if_autocast_enabled ref_torch env_autocast on_xla = Inl NotImplementedError \<and>
   \<not> is_autocast_enabled ref_torch env_plain \<and>
   cast_if_autocast_enabled ref_torch env_plain on_xla = Inr on_xla"
proof -
  have dev: "device_type on_xla \<noteq> ''cuda''" "device_type on_xla \<noteq> ''cpu''"
    by (simp_all add: on_xla_def)
  have on: "is_autocast_enabled ref_torch env_autocast"
    by (simp add: ref_torch_def env_autocast_def)
  have off: "\<not> is_autocast_enabled ref_torch env_plain"
    by (simp add: ref_torch_def env_plain_def)
  from unsupported_device_fails_iff_autocast_enabled [OF dev, of ref_torch env_autocast]
    unsupported_device_fails_iff_autocast_enabled [OF dev, of ref_torch env_plain]
    dev on off
  show ?thesis by simp
qed

text \<open>
  Claim C9. The tensor of shape (2, 4) filled with 2.0, eps = 1e-5, no weight:
  the mean of the squares is 4 in each of the two rows, every element of the
  output is \<open>2 * rsqrt(4.00001)\<close>, and that number is 0.999998 to within one unit
  of the sixth decimal. The arithmetic is that of the reference runtime, on
  real numbers.
\<close>

theorem rms_norm_twos:
  "bind_res (tensor_pow ref_torch env twos 2) (tensor_mean_last ref_torch env) =
     Inr \<lparr>dtype = Float32, device_type = ''cpu'', shape = [2, 1], data = [4, 4]\<rparr> \<and>
   rms_norm ref_torch env twos None (1 / 100000) =
     Inr \<lparr>dtype = Float32, device_type = ''cpu'', shape = [2, 4],
          data = replicate 8 (2 * (1 / sqrt (4 + 1 / 100000)))\<rparr> \<and>
   \<bar>2 * (1 / sqrt (4 + 1 / 100000)) - 999998 / 1000000\<bar> < 1 / 1000000"
proof (intro conjI)
  show "bind_res (tensor_pow ref_torch env twos 2) (tensor_mean_last ref_torch env) =
     Inr \<lparr>dtype = Float32, device_type = ''cpu'', shape = [2, 1], data = [4, 4]\<rparr>"
    by (simp add: twos_def ref_eval)
  show "rms_norm ref_torch env twos None (1 / 100000) =
     Inr \<lparr>dtype = Float32, device_type = ''cpu'', shape = [2, 4],
          data = replicate 8 (2 * (1 / sqrt (4 + 1 / 100000)))\<rparr>"
    by (simp add: twos_def rms_norm_def ref_eval)
  show "\<bar>2 * (1 / sqrt (4 + 1 / 100000)) - 999998 / 1000000\<bar> < 1 / 1000000"
    by (rule rsqrt_value)
qed




end
